theory Spec2Isabelle
  imports Complex_Main "HOL-Library.Word"
begin

section \<open>JavaScript values\<close>

text \<open>
  A JavaScript string is a sequence of UTF-16 code units. String literals of the
  source are written \<open>str ''...''\<close>.
\<close>

type_synonym jsstring = "16 word list"

definition str :: "string \<Rightarrow> jsstring" where
  "str s = map (\<lambda>c. of_nat (of_char c)) s"

text \<open>
  The values that flow through both programs untyped (\<open>any\<close>): what \<open>JSON.parse\<close>
  yields, and \<open>undefined\<close> for a property that is not there. A number carries its
  numeric value (a parsed JSON number is never NaN); only whether it is zero matters below.
\<close>

datatype jsval =
    JUndefined
  | JNull
  | JBool bool
  | JNum real
  | is_JStr: JStr jsstring
  | JArr "jsval list"
  | JObj "(jsstring \<times> jsval) list"

text \<open>\<open>!v\<close> is \<open>\<not> truthy v\<close>.\<close>

fun truthy :: "jsval \<Rightarrow> bool" where
  "truthy JUndefined = False"
| "truthy JNull = False"
| "truthy (JBool b) = b"
| "truthy (JNum x) = (x \<noteq> 0)"
| "truthy (JStr s) = (s \<noteq> [])"
| "truthy (JArr _) = True"
| "truthy (JObj _) = True"

fun nullish :: "jsval \<Rightarrow> bool" where
  "nullish JUndefined = True"
| "nullish JNull = True"
| "nullish _ = False"

text \<open>
  \<open>v.k\<close> for a value that is not \<open>null\<close> or \<open>undefined\<close>, and for the property names
  the two programs read (none of them is a built-in property of strings, numbers,
  booleans, arrays or objects): the stored value of an object, \<open>undefined\<close> otherwise.
  \<open>JObj\<close> lists the entries of a parsed object, each key once.
  On \<open>null\<close> and \<open>undefined\<close> the engine raises a TypeError instead; the callers test
  \<open>nullish\<close> first.
\<close>

fun get_prop :: "jsstring \<Rightarrow> jsval \<Rightarrow> jsval" where
  "get_prop k (JObj fs) = (case map_of fs k of None \<Rightarrow> JUndefined | Some v \<Rightarrow> v)"
| "get_prop k _ = JUndefined"

text \<open>\<open>v?.k\<close>\<close>

definition optional_prop :: "jsstring \<Rightarrow> jsval \<Rightarrow> jsval" where
  "optional_prop k v = (if nullish v then JUndefined else get_prop k v)"

text \<open>
  A thrown value: an instance of \<open>Error\<close> with its message, or any other value.
  An awaited call either throws (its promise rejects) or returns.
\<close>

datatype thrown = Err jsstring | Val jsval

datatype 'a outcome = Throws thrown | Returns 'a

section \<open>The video-analysis handler (supabase/functions/analyze-video/index.ts)\<close>

record request =
  http_method :: jsstring
  json :: "jsval outcome"  \<comment> \<open>what \<open>await req.json()\<close> gives\<close>

record response =
  status :: nat
  headers :: "(jsstring \<times> jsstring) list"
  body :: "jsval option"  \<comment> \<open>\<open>None\<close> is a \<open>null\<close> body; otherwise the value \<open>JSON.stringify\<close> serialises\<close>

definition corsHeaders :: "(jsstring \<times> jsstring) list" where
  "corsHeaders =
     [(str ''Access-Control-Allow-Origin'', str ''*''),
      (str ''Access-Control-Allow-Headers'',
       str ''authorization, x-client-info, apikey, content-type'')]"

text \<open>The response of \<open>fetch\<close>: its \<open>ok\<close> flag and what \<open>text()\<close> and \<open>json()\<close> give.\<close>

record fetch_response =
  ok :: bool
  text_body :: "jsstring outcome"
  json_body :: "jsval outcome"

text \<open>A choice of a chat completion: \<open>message.content\<close> is a string or \<open>null\<close>.\<close>

record choice =
  content :: "jsstring option"

text \<open>A value of type \<open>string | null\<close> as a JavaScript value.\<close>

fun from_nullable :: "jsstring option \<Rightarrow> jsval" where
  "from_nullable None = JNull"
| "from_nullable (Some s) = JStr s"

text \<open>
  What the services outside the handler answer during one run. \<open>download_result\<close> is
  the pair \<open>{ data, error }\<close> (an error is given by its message), \<open>update_result\<close> is
  \<open>{ error }\<close>. \<open>type_error\<close> is the message the engine gives a TypeError it raises.
  The environment variables and the \<open>Authorization\<close> header are left out: a missing
  variable shows as a constructor that throws (\<open>create_client\<close>, \<open>new_openai\<close>) or as a
  service that answers with an error.
\<close>

record services =
  create_client :: "unit outcome"
  download_result :: "(8 word list option \<times> jsstring option) outcome"
  fetch_result :: "fetch_response outcome"
  new_openai :: "unit outcome"
  completion_result :: "choice list outcome"
  update_result :: "jsstring option outcome"
  type_error :: jsstring

text \<open>The requests the handler sends out, in the order it sends them.\<close>

datatype form_value =
    FileField "8 word list" jsstring jsstring  \<comment> \<open>blob, media type, file name\<close>
  | TextField jsstring

datatype call =
    Download jsstring jsval  \<comment> \<open>bucket, path\<close>
  | Transcribe jsstring "(jsstring \<times> form_value) list"  \<comment> \<open>URL, form data\<close>
  | Complete jsstring "(jsstring \<times> jsval) list"  \<comment> \<open>model, messages as (role, content)\<close>
  | Update jsstring "(jsstring \<times> jsval) list" jsstring jsval
      \<comment> \<open>table, fields set, column and value of \<open>eq\<close>\<close>

fun is_download :: "call \<Rightarrow> bool" where
  "is_download (Download _ _) = True"
| "is_download _ = False"

fun is_transcribe :: "call \<Rightarrow> bool" where
  "is_transcribe (Transcribe _ _) = True"
| "is_transcribe _ = False"

fun is_complete :: "call \<Rightarrow> bool" where
  "is_complete (Complete _ _) = True"
| "is_complete _ = False"

fun is_update :: "call \<Rightarrow> bool" where
  "is_update (Update _ _ _ _) = True"
| "is_update _ = False"

definition system_prompt :: jsstring where
  "system_prompt = str (''Analyze the candidate'' @ [CHR 0x27] @ ''s video introduction transcript and extract key information about their motivation, experience, and communication style. Return a JSON object with the following structure: {\"motivation\": string, \"experience_summary\": string, \"communication_score\": number, \"key_strengths\": string[]}'')"

definition json_headers :: "(jsstring \<times> jsstring) list" where
  "json_headers = corsHeaders @ [(str ''Content-Type'', str ''application/json'')]"

text \<open>
  The body of \<open>try\<close>, in four parts that follow the source from its end to its
  start; each part takes the calls sent so far and gives the calls sent, with the
  response returned or the value thrown. Console output is left out, apart from the
  \<open>transcript.substring\<close> it evaluates, which raises a TypeError when the transcript is
  not a string.
\<close>

text \<open>Lines 101 to 129: the database update and the response.\<close>

definition update_application ::
  "services \<Rightarrow> call list \<Rightarrow> jsval \<Rightarrow> jsval \<Rightarrow> jsval \<Rightarrow> call list \<times> (thrown + response)" where
  "update_application env cs applicationId transcript analysis =
    (let cs' = cs @ [Update (str ''applications'')
                       [(str ''video_transcript'', transcript),
                        (str ''video_analysis'', analysis),
                        (str ''status'', JStr (str ''video_analyzed''))]
                       (str ''id'') applicationId] in
     case update_result env of
       Throws e \<Rightarrow> (cs', Inl e)
     | Returns updateError \<Rightarrow>
        (case updateError of
           Some m \<Rightarrow> (cs', Inl (Err (str ''Failed to update application: '' @ m)))
         | None \<Rightarrow>
            (cs', Inr \<lparr>status = 200, headers = json_headers,
                       body = Some (JObj [(str ''transcript'', transcript),
                                          (str ''analysis'', analysis)])\<rparr>)))"

text \<open>Lines 78 to 99: the chat completion; \<open>choices[0].message\<close> of no choice is a TypeError.\<close>

definition analyze_transcript ::
  "services \<Rightarrow> call list \<Rightarrow> jsval \<Rightarrow> jsval \<Rightarrow> call list \<times> (thrown + response)" where
  "analyze_transcript env cs applicationId transcript =
    (case new_openai env of
       Throws e \<Rightarrow> (cs, Inl e)
     | Returns _ \<Rightarrow>
        (let cs' = cs @ [Complete (str ''gpt-4o-mini'')
                          [(str ''system'', JStr system_prompt), (str ''user'', transcript)]] in
         case completion_result env of
           Throws e \<Rightarrow> (cs', Inl e)
         | Returns choices \<Rightarrow>
            (case choices of
               [] \<Rightarrow> (cs', Inl (Err (type_error env)))
             | c # _ \<Rightarrow>
                (let analysis = from_nullable (content c) in
                 update_application env cs' applicationId transcript analysis))))"

text \<open>Lines 46 to 76: the transcription.\<close>

definition transcribe ::
  "services \<Rightarrow> call list \<Rightarrow> jsval \<Rightarrow> 8 word list \<Rightarrow> call list \<times> (thrown + response)" where
  "transcribe env cs applicationId videoData =
    (let formData = [(str ''file'', FileField videoData (str ''video/webm'') (str ''video.webm'')),
                     (str ''model'', TextField (str ''whisper-1''))];
         cs' = cs @ [Transcribe (str ''https://api.openai.com/v1/audio/transcriptions'') formData] in
     case fetch_result env of
       Throws e \<Rightarrow> (cs', Inl e)
     | Returns transcriptionResponse \<Rightarrow>
        (if \<not> ok transcriptionResponse
         then (case text_body transcriptionResponse of
                 Throws e \<Rightarrow> (cs', Inl e)
               | Returns errorText \<Rightarrow>
                  (cs', Inl (Err (str ''OpenAI Whisper API error: '' @ errorText))))
         else (case json_body transcriptionResponse of
                 Throws e \<Rightarrow> (cs', Inl e)
               | Returns tb \<Rightarrow>
                  (if nullish tb then (cs', Inl (Err (type_error env)))
                   else let transcript = get_prop (str ''text'') tb in
                     if \<not> truthy transcript
                     then (cs', Inl (Err (str ''No transcript received from OpenAI'')))
                     else if \<not> is_JStr transcript then (cs', Inl (Err (type_error env)))
                     else analyze_transcript env cs' applicationId transcript))))"

text \<open>Lines 25 to 44: the client and the download.\<close>

definition download_video ::
  "services \<Rightarrow> jsval \<Rightarrow> jsval \<Rightarrow> call list \<times> (thrown + response)" where
  "download_video env applicationId videoPath =
    (case create_client env of
       Throws e \<Rightarrow> ([], Inl e)
     | Returns _ \<Rightarrow>
        (let cs = [Download (str ''applications'') videoPath] in
         case download_result env of
           Throws e \<Rightarrow> (cs, Inl e)
         | Returns (videoData, downloadError) \<Rightarrow>
            (case downloadError of
               Some m \<Rightarrow> (cs, Inl (Err (str ''Failed to download video: '' @ m)))
             | None \<Rightarrow>
                (case videoData of
                   None \<Rightarrow> (cs, Inl (Err (str ''No video data received from storage'')))
                 | Some d \<Rightarrow> transcribe env cs applicationId d))))"

text \<open>Lines 18 to 23: the request body; destructuring \<open>null\<close> is a TypeError.\<close>

definition try_block :: "request \<Rightarrow> services \<Rightarrow> call list \<times> (thrown + response)" where
  "try_block req env =
    (case json req of
       Throws e \<Rightarrow> ([], Inl e)
     | Returns b \<Rightarrow>
        (if nullish b then ([], Inl (Err (type_error env)))
         else let applicationId = get_prop (str ''applicationId'') b;
                  videoPath = get_prop (str ''videoPath'') b in
           if \<not> truthy applicationId \<or> \<not> truthy videoPath
           then ([], Inl (Err (str ''Missing required parameters: applicationId or videoPath'')))
           else download_video env applicationId videoPath))"

text \<open>The \<open>catch\<close> clause: \<open>error instanceof Error ? error.message : 'Unknown error occurred'\<close>.\<close>

fun error_message :: "thrown \<Rightarrow> jsstring" where
  "error_message (Err m) = m"
| "error_message (Val _) = str ''Unknown error occurred''"

definition error_response :: "jsstring \<Rightarrow> response" where
  "error_response m =
     \<lparr>status = 500, headers = json_headers, body = Some (JObj [(str ''error'', JStr m)])\<rparr>"

definition handler :: "request \<Rightarrow> services \<Rightarrow> call list \<times> response" where
  "handler req env =
    (if http_method req = str ''OPTIONS''
     then ([], \<lparr>status = 200, headers = corsHeaders, body = None\<rparr>)
     else (case try_block req env of
             (cs, Inr resp) \<Rightarrow> (cs, resp)
           | (cs, Inl error) \<Rightarrow> (cs, error_response (error_message error))))"

section \<open>The upload widget (FileUpload, handleFileChange)\<close>

record File =
  name :: jsstring
  bytes :: "8 word list"

text \<open>
  \<open>/[^\x00-\x7F]/\<close> has no \<open>u\<close> flag: it matches one UTF-16 code unit that is outside the
  range from 0x00 to 0x7F.
\<close>

definition non_ascii :: "16 word \<Rightarrow> bool" where
  "non_ascii u = (\<not> (0x00 \<le> u \<and> u \<le> 0x7F))"

text \<open>
  \<open>s.replace(/[^\x00-\x7F]/g, '')\<close>: the string is scanned from left to right and every
  match is replaced by the empty string.
\<close>

fun replace_non_ascii :: "jsstring \<Rightarrow> jsstring" where
  "replace_non_ascii [] = []"
| "replace_non_ascii (u # us) =
     (if non_ascii u then [] @ replace_non_ascii us else u # replace_non_ascii us)"

text \<open>
  A number in a template literal, for the integers \<open>getTime()\<close> gives (their absolute
  value is below \<open>10\<^sup>2\<^sup>1\<close>, where the decimal digits are written out in full).
\<close>

fun digits :: "nat \<Rightarrow> jsstring" where
  "digits n =
     (if n < 10 then [of_nat (48 + n)] else digits (n div 10) @ [of_nat (48 + n mod 10)])"

declare digits.simps [simp del]

definition number_to_string :: "int \<Rightarrow> jsstring" where
  "number_to_string n = (if n < 0 then str ''-'' @ digits (nat (- n)) else digits (nat n))"

text \<open>Lines 29 to 31, with \<open>timestamp\<close> the value of \<open>new Date().getTime()\<close>.\<close>

definition file_path :: "int \<Rightarrow> File \<Rightarrow> jsstring" where
  "file_path timestamp file =
    (let sanitizedFileName = replace_non_ascii (name file)
     in str ''job-documents/'' @ number_to_string timestamp @ str ''_'' @ sanitizedFileName)"

text \<open>
  What the widget does that is visible outside \<open>handleFileChange\<close>, in order: the state
  setter, the two remote calls, the callback of the caller and the toast (with the
  object it is given). The state setter and the toast return normally; the remote
  calls and the callback may throw.
\<close>

datatype event =
    SetUploading bool
  | Upload jsstring jsstring File  \<comment> \<open>bucket, key, file\<close>
  | Invoke jsstring jsval  \<comment> \<open>function name, body\<close>
  | OnProcessed jsval
  | Toast "(jsstring \<times> jsval) list"

fun is_upload :: "event \<Rightarrow> bool" where
  "is_upload (Upload _ _ _) = True"
| "is_upload _ = False"

fun is_invoke :: "event \<Rightarrow> bool" where
  "is_invoke (Invoke _ _) = True"
| "is_invoke _ = False"

fun is_onProcessed :: "event \<Rightarrow> bool" where
  "is_onProcessed (OnProcessed _) = True"
| "is_onProcessed _ = False"

fun is_remote :: "event \<Rightarrow> bool" where
  "is_remote e = (is_upload e \<or> is_invoke e)"

fun is_setUploading :: "event \<Rightarrow> bool" where
  "is_setUploading (SetUploading _) = True"
| "is_setUploading _ = False"

text \<open>
  What the world outside answers during one invocation: the clock, the storage upload
  (\<open>{ error }\<close>, an error given by its message), the function invocation
  (\<open>{ data, error }\<close>), the callback of the caller, and the message the engine gives a
  TypeError.
\<close>

record browser =
  now :: int
  upload_result :: "jsstring option outcome"
  invoke_result :: "(jsval \<times> jsstring option) outcome"
  onProcessed_result :: "unit outcome"
  engine_type_error :: jsstring

definition success_toast :: "(jsstring \<times> jsval) list" where
  "success_toast =
     [(str ''title'', JStr (str ''Success'')),
      (str ''description'', JStr (str ''Job description processed successfully''))]"

definition error_toast :: "jsval \<Rightarrow> (jsstring \<times> jsval) list" where
  "error_toast message =
     [(str ''title'', JStr (str ''Error'')),
      (str ''description'', message),
      (str ''variant'', JStr (str ''destructive''))]"

text \<open>The object given to \<open>onProcessed\<close> (lines 50 to 56); \<open>data\<close> is not nullish there.\<close>

definition processed :: "jsval \<Rightarrow> jsval" where
  "processed data =
     JObj [(str ''title'', get_prop (str ''title'') data),
           (str ''description'', get_prop (str ''description'') data),
           (str ''good_candidate_attributes'', get_prop (str ''good_candidate_attributes'') data),
           (str ''bad_candidate_attributes'', get_prop (str ''bad_candidate_attributes'') data),
           (str ''essential_attributes'',
            (let a = get_prop (str ''essential_attributes'') data
             in if truthy a then a else JArr []))]"

text \<open>Lines 39 to 61: the invocation of the edge function, the callback and the toast.\<close>

definition process_document ::
  "browser \<Rightarrow> event list \<Rightarrow> jsstring \<Rightarrow> event list \<times> (thrown + unit)" where
  "process_document env es filePath =
    (let es' = es @ [Invoke (str ''process-job-document'')
                       (JObj [(str ''filePath'', JStr filePath)])] in
     case invoke_result env of
       Throws e \<Rightarrow> (es', Inl e)
     | Returns (data, error) \<Rightarrow>
        (case error of
           Some m \<Rightarrow> (es', Inl (Err m))
         | None \<Rightarrow>
            (if \<not> truthy (optional_prop (str ''description'') data)
             then (es', Inl (Err (str ''No content extracted from document'')))
             else let es'' = es' @ [OnProcessed (processed data)] in
               case onProcessed_result env of
                 Throws e \<Rightarrow> (es'', Inl e)
               | Returns _ \<Rightarrow> (es'' @ [Toast success_toast], Inr ()))))"

text \<open>Lines 26 to 37: the body of \<open>try\<close> up to the upload.\<close>

definition try_body :: "File \<Rightarrow> browser \<Rightarrow> event list \<times> (thrown + unit)" where
  "try_body file env =
    (let es = [SetUploading True];
         timestamp = now env;
         filePath = file_path timestamp file;
         es' = es @ [Upload (str ''job-documents'') filePath file] in
     case upload_result env of
       Throws e \<Rightarrow> (es', Inl e)
     | Returns uploadError \<Rightarrow>
        (case uploadError of
           Some m \<Rightarrow> (es', Inl (Err m))
         | None \<Rightarrow> process_document env es' filePath))"

text \<open>
  \<open>error.message\<close> in the \<open>catch\<close> clause, for any thrown value: reading a property of
  \<open>null\<close> or \<open>undefined\<close> raises a TypeError (with message \<open>te\<close>).
\<close>

fun message_of :: "jsstring \<Rightarrow> thrown \<Rightarrow> jsval outcome" where
  "message_of te (Err m) = Returns (JStr m)"
| "message_of te (Val v) =
     (if nullish v then Throws (Err te) else Returns (get_prop (str ''message'') v))"

text \<open>\<open>event.target.files?.[0]\<close>: no file when the list is \<open>null\<close> or empty.\<close>

definition first_file :: "File list option \<Rightarrow> File option" where
  "first_file files =
     (case files of None \<Rightarrow> None | Some fs \<Rightarrow> (case fs of [] \<Rightarrow> None | f # _ \<Rightarrow> Some f))"

text \<open>
  One invocation: its events, and the value its promise is rejected with, if any (the
  \<open>catch\<close> clause can throw; \<open>finally\<close> runs all the same).
\<close>

record completion =
  events :: "event list"
  rejected :: "thrown option"

definition handleFileChange :: "File list option \<Rightarrow> browser \<Rightarrow> completion" where
  "handleFileChange files env =
    (case first_file files of
       None \<Rightarrow> \<lparr>events = [], rejected = None\<rparr>
     | Some file \<Rightarrow>
        (case try_body file env of
           (es, Inr _) \<Rightarrow> \<lparr>events = es @ [SetUploading False], rejected = None\<rparr>
         | (es, Inl error) \<Rightarrow>
            (case message_of (engine_type_error env) error of
               Throws e \<Rightarrow> \<lparr>events = es @ [SetUploading False], rejected = Some e\<rparr>
             | Returns m \<Rightarrow>
                \<lparr>events = es @ [Toast (error_toast m), SetUploading False],
                 rejected = None\<rparr>)))"

text \<open>
  The \<open>uploading\<close> state of the component: \<open>setUploading\<close> sets it, nothing else does.
  \<open>uploading_values u es\<close> lists the flag before the events and after each of them,
  \<open>transitions\<close> the changes of value in such a list.
\<close>

fun set_uploading :: "event \<Rightarrow> bool \<Rightarrow> bool" where
  "set_uploading (SetUploading b) u = b"
| "set_uploading _ u = u"

definition uploading_after :: "bool \<Rightarrow> event list \<Rightarrow> bool" where
  "uploading_after u es = fold set_uploading es u"

fun uploading_values :: "bool \<Rightarrow> event list \<Rightarrow> bool list" where
  "uploading_values u [] = [u]"
| "uploading_values u (e # es) = u # uploading_values (set_uploading e u) es"

fun transitions :: "bool list \<Rightarrow> (bool \<times> bool) list" where
  "transitions (a # b # bs) = (if a \<noteq> b then [(a, b)] else []) @ transitions (b # bs)"
| "transitions _ = []"

section \<open>Code points\<close>

text \<open>
  The code points of a string, as a string iterator reads them: a high surrogate
  followed by a low surrogate is one code point above 0xFFFF, any other code unit is
  a code point by itself. The widget does not compute this; it says what the
  characters of a file name are.
\<close>

definition is_high_surrogate :: "16 word \<Rightarrow> bool" where
  "is_high_surrogate u = (0xD800 \<le> u \<and> u \<le> 0xDBFF)"

definition is_low_surrogate :: "16 word \<Rightarrow> bool" where
  "is_low_surrogate u = (0xDC00 \<le> u \<and> u \<le> 0xDFFF)"

fun code_points :: "jsstring \<Rightarrow> nat list" where
  "code_points [] = []"
| "code_points [u] = [unat u]"
| "code_points (u # v # us) =
     (if is_high_surrogate u \<and> is_low_surrogate v
      then (0x10000 + (unat u - 0xD800) * 0x400 + (unat v - 0xDC00)) # code_points us
      else unat u # code_points (v # us))"

section \<open>Decimal numerals\<close>

text \<open>
  The integer that a string denotes in decimal notation: digits without a leading zero
  (the single digit zero apart), with a minus sign in front for a negative integer.
  Every other string denotes none. The widget does not compute this; it says what it
  means for a key to hold the timestamp.
\<close>

definition is_digit :: "16 word \<Rightarrow> bool" where
  "is_digit u = (0x30 \<le> u \<and> u \<le> 0x39)"

fun decimal_value :: "nat \<Rightarrow> jsstring \<Rightarrow> nat option" where
  "decimal_value a [] = Some a"
| "decimal_value a (u # us) =
     (if is_digit u then decimal_value (10 * a + (unat u - 0x30)) us else None)"

definition decimal_nat :: "jsstring \<Rightarrow> nat option" where
  "decimal_nat s =
     (case s of [] \<Rightarrow> None
      | u # us \<Rightarrow> if u = 0x30 \<and> us \<noteq> [] then None else decimal_value 0 s)"

definition decimal_int :: "jsstring \<Rightarrow> int option" where
  "decimal_int s =
     (case s of [] \<Rightarrow> None
      | u # us \<Rightarrow>
         if u = 0x2D
         then (case decimal_nat us of None \<Rightarrow> None
               | Some n \<Rightarrow> if n = 0 then None else Some (- int n))
         else (case decimal_nat s of None \<Rightarrow> None | Some n \<Rightarrow> Some (int n)))"

section \<open>Example runs\<close>

text \<open>A request with both fields, and services that all answer with success.\<close>

definition example_request :: request where
  "example_request =
     \<lparr>http_method = str ''POST'',
      json = Returns (JObj [(str ''applicationId'', JStr (str ''app-1'')),
                            (str ''videoPath'', JStr (str ''videos/intro.webm''))])\<rparr>"

definition example_response :: fetch_response where
  "example_response =
     \<lparr>ok = True, text_body = Returns [],
      json_body = Returns (JObj [(str ''text'', JStr (str ''Hello''))])\<rparr>"

definition example_services :: services where
  "example_services =
     \<lparr>create_client = Returns (),
      download_result = Returns (Some [0x1A, 0x45, 0xDF, 0xA3], None),
      fetch_result = Returns example_response,
      new_openai = Returns (),
      completion_result = Returns [\<lparr>content = Some (str ''{}'')\<rparr>],
      update_result = Returns None,
      type_error = str ''TypeError''\<rparr>"

text \<open>Further requests and services, each differing from the example in one place.\<close>

definition no_video_services :: services where
  "no_video_services = example_services\<lparr>download_result := Returns (None, None)\<rparr>"

definition no_text_services :: services where
  "no_text_services =
     example_services\<lparr>fetch_result := Returns (example_response\<lparr>json_body := Returns (JObj [])\<rparr>)\<rparr>"

definition preflight_request :: request where
  "preflight_request = \<lparr>http_method = str ''OPTIONS'', json = Returns (JObj [])\<rparr>"

definition empty_id_request :: request where
  "empty_id_request =
     \<lparr>http_method = str ''POST'',
      json = Returns (JObj [(str ''applicationId'', JStr []),
                            (str ''videoPath'', JStr (str ''videos/intro.webm''))])\<rparr>"

text \<open>A file whose name has two characters outside ASCII, and answers to the widget.\<close>

definition example_file :: File where
  "example_file = \<lparr>name = str ''CV'' @ [0xE9, 0xD83D, 0xDE00] @ str ''.pdf'', bytes = [0x25, 0x50]\<rparr>"

definition example_browser :: browser where
  "example_browser =
     \<lparr>now = 1700000000123,
      upload_result = Returns None,
      invoke_result = Returns (JObj [(str ''title'', JStr (str ''Engineer'')),
                                     (str ''description'', JStr (str ''Builds things''))], None),
      onProcessed_result = Returns (),
      engine_type_error = str ''TypeError''\<rparr>"

definition no_description_browser :: browser where
  "no_description_browser =
     example_browser\<lparr>invoke_result := Returns (JObj [(str ''title'', JStr (str ''Engineer''))], None)\<rparr>"

definition failed_upload_browser :: browser where
  "failed_upload_browser = example_browser\<lparr>upload_result := Returns (Some (str ''Bucket not found''))\<rparr>"

section \<open>The handler, part by part\<close>

lemma handler_preflight:
  "http_method req = str ''OPTIONS'' \<Longrightarrow>
   handler req env = ([], \<lparr>status = 200, headers = corsHeaders, body = None\<rparr>)"
  by (simp add: handler_def)

lemma handler_sent_not_preflight:
  "list_ex P (fst (handler req env)) \<Longrightarrow> http_method req \<noteq> str ''OPTIONS''"
  by (auto simp: handler_def)

lemma handler_calls:
  "http_method req \<noteq> str ''OPTIONS'' \<Longrightarrow> fst (handler req env) = fst (try_block req env)"
  by (simp add: handler_def split: prod.splits sum.splits)

lemma handler_returned:
  "http_method req \<noteq> str ''OPTIONS'' \<Longrightarrow> snd (try_block req env) = Inr r \<Longrightarrow>
   snd (handler req env) = r"
  by (auto simp: handler_def split: prod.splits sum.splits)

lemma handler_caught:
  "http_method req \<noteq> str ''OPTIONS'' \<Longrightarrow> snd (try_block req env) = Inl e \<Longrightarrow>
   snd (handler req env) = error_response (error_message e)"
  by (auto simp: handler_def split: prod.splits sum.splits)

lemma try_block_sent:
  assumes "list_ex P (fst (try_block req env))"
  obtains b where "json req = Returns b" "\<not> nullish b"
    "truthy (get_prop (str ''applicationId'') b)" "truthy (get_prop (str ''videoPath'') b)"
    "try_block req env =
       download_video env (get_prop (str ''applicationId'') b) (get_prop (str ''videoPath'') b)"
  using assms
  by (cases "json req") (auto simp: try_block_def Let_def split: if_splits)

lemma try_block_rejected:
  assumes "json req = Returns b"
    and "\<not> truthy (get_prop (str ''applicationId'') b) \<or> \<not> truthy (get_prop (str ''videoPath'') b)"
  shows "try_block req env =
    ([], Inl (Err (if nullish b then type_error env
                   else str ''Missing required parameters: applicationId or videoPath'')))"
  using assms by (auto simp: try_block_def Let_def)

lemma download_video_sent:
  "list_ex P (fst (download_video env a p)) \<Longrightarrow> create_client env = Returns ()"
  by (cases "create_client env") (simp_all add: download_video_def)

lemma download_video_failed:
  assumes "create_client env = Returns ()"
    and "download_result env = Returns (videoData, downloadError)"
    and "downloadError \<noteq> None \<or> videoData = None"
  shows "download_video env a p =
    ([Download (str ''applications'') p],
     Inl (Err (case downloadError of Some m \<Rightarrow> str ''Failed to download video: '' @ m
               | None \<Rightarrow> str ''No video data received from storage'')))"
  using assms by (auto simp: download_video_def Let_def split: option.splits)

lemma download_video_ok:
  assumes "create_client env = Returns ()"
    and "download_result env = Returns (Some d, None)"
  shows "download_video env a p = transcribe env [Download (str ''applications'') p] a d"
  using assms by (simp add: download_video_def)

lemma transcribe_no_text:
  assumes "fetch_result env = Returns resp" and "ok resp" and "json_body resp = Returns tb"
    and "\<not> truthy (get_prop (str ''text'') tb)"
  shows "transcribe env cs a d =
    (cs @ [Transcribe (str ''https://api.openai.com/v1/audio/transcriptions'')
             [(str ''file'', FileField d (str ''video/webm'') (str ''video.webm'')),
              (str ''model'', TextField (str ''whisper-1''))]],
     Inl (Err (if nullish tb then type_error env
               else str ''No transcript received from OpenAI'')))"
  using assms by (simp add: transcribe_def Let_def)

lemma transcribe_complete_sent:
  assumes "list_ex is_complete (fst (transcribe env cs a d))" and "\<not> list_ex is_complete cs"
    and "fetch_result env = Returns resp" and "json_body resp = Returns tb"
  shows "transcribe env cs a d =
    analyze_transcript env
      (cs @ [Transcribe (str ''https://api.openai.com/v1/audio/transcriptions'')
               [(str ''file'', FileField d (str ''video/webm'') (str ''video.webm'')),
                (str ''model'', TextField (str ''whisper-1''))]])
      a (get_prop (str ''text'') tb)"
  using assms
  by (cases "text_body resp") (auto simp: transcribe_def Let_def split: if_splits)

lemma analyze_transcript_sent:
  assumes "list_ex is_complete (fst (analyze_transcript env cs a t))" and "\<not> list_ex is_complete cs"
  shows "new_openai env = Returns ()"
  using assms by (cases "new_openai env") (simp_all add: analyze_transcript_def)

lemma analyze_transcript_ok:
  assumes "new_openai env = Returns ()" and "completion_result env = Returns (c # rest)"
  shows "analyze_transcript env cs a t =
    update_application env
      (cs @ [Complete (str ''gpt-4o-mini'')
               [(str ''system'', JStr system_prompt), (str ''user'', t)]])
      a t (from_nullable (content c))"
  using assms by (simp add: analyze_transcript_def)

lemma update_application_ok:
  assumes "update_result env = Returns None"
  shows "update_application env cs a t an =
    (cs @ [Update (str ''applications'')
             [(str ''video_transcript'', t), (str ''video_analysis'', an),
              (str ''status'', JStr (str ''video_analyzed''))]
             (str ''id'') a],
     Inr \<lparr>status = 200, headers = json_headers,
          body = Some (JObj [(str ''transcript'', t), (str ''analysis'', an)])\<rparr>)"
  using assms by (simp add: update_application_def)

lemma json_headers_cors:
  "map_of json_headers (str ''Access-Control-Allow-Origin'') = Some (str ''*'')"
  "map_of json_headers (str ''Access-Control-Allow-Headers'') =
     Some (str ''authorization, x-client-info, apikey, content-type'')"
  "map_of corsHeaders (str ''Access-Control-Allow-Origin'') = Some (str ''*'')"
  "map_of corsHeaders (str ''Access-Control-Allow-Headers'') =
     Some (str ''authorization, x-client-info, apikey, content-type'')"
  by (simp_all add: json_headers_def corsHeaders_def str_def)

lemma update_application_headers:
  "update_application env cs a t an = (cs', Inr r) \<Longrightarrow> headers r = json_headers"
  by (auto simp: update_application_def Let_def split: outcome.splits option.splits)

lemma analyze_transcript_headers:
  "analyze_transcript env cs a t = (cs', Inr r) \<Longrightarrow> headers r = json_headers"
  by (auto simp: analyze_transcript_def Let_def split: outcome.splits list.splits
      dest: update_application_headers)

lemma transcribe_headers:
  "transcribe env cs a d = (cs', Inr r) \<Longrightarrow> headers r = json_headers"
  by (auto simp: transcribe_def Let_def split: outcome.splits if_splits
      dest: analyze_transcript_headers)

lemma download_video_headers:
  "download_video env a p = (cs', Inr r) \<Longrightarrow> headers r = json_headers"
  by (auto simp: download_video_def Let_def split: outcome.splits option.splits
      dest: transcribe_headers)

lemma try_block_headers:
  "try_block req env = (cs', Inr r) \<Longrightarrow> headers r = json_headers"
  by (auto simp: try_block_def Let_def split: outcome.splits if_splits
      dest: download_video_headers)

lemma handler_headers:
  "headers (snd (handler req env)) = corsHeaders \<or> headers (snd (handler req env)) = json_headers"
  by (auto simp: handler_def error_response_def split: prod.splits sum.splits
      dest: try_block_headers)

lemma example_literals:
  "str ''POST'' \<noteq> str ''OPTIONS''"
  "get_prop (str ''applicationId'')
     (JObj [(str ''applicationId'', JStr (str ''app-1'')),
            (str ''videoPath'', JStr (str ''videos/intro.webm''))]) = JStr (str ''app-1'')"
  "get_prop (str ''videoPath'')
     (JObj [(str ''applicationId'', JStr (str ''app-1'')),
            (str ''videoPath'', JStr (str ''videos/intro.webm''))]) = JStr (str ''videos/intro.webm'')"
  "get_prop (str ''text'') (JObj [(str ''text'', JStr (str ''Hello''))]) = JStr (str ''Hello'')"
  by (simp_all add: str_def)

lemma example_run:
  "handler example_request example_services =
    ([Download (str ''applications'') (JStr (str ''videos/intro.webm'')),
      Transcribe (str ''https://api.openai.com/v1/audio/transcriptions'')
        [(str ''file'', FileField [0x1A, 0x45, 0xDF, 0xA3] (str ''video/webm'') (str ''video.webm'')),
         (str ''model'', TextField (str ''whisper-1''))],
      Complete (str ''gpt-4o-mini'')
        [(str ''system'', JStr system_prompt), (str ''user'', JStr (str ''Hello''))],
      Update (str ''applications'')
        [(str ''video_transcript'', JStr (str ''Hello'')),
         (str ''video_analysis'', JStr (str ''{}'')),
         (str ''status'', JStr (str ''video_analyzed''))]
        (str ''id'') (JStr (str ''app-1''))],
     \<lparr>status = 200, headers = json_headers,
      body = Some (JObj [(str ''transcript'', JStr (str ''Hello'')),
                         (str ''analysis'', JStr (str ''{}''))])\<rparr>)"
  by (simp add: handler_def try_block_def download_video_def transcribe_def
      analyze_transcript_def update_application_def example_request_def example_services_def
      example_response_def Let_def str_def)

lemma download_video_transcribe_sent:
  assumes "list_ex is_transcribe (fst (download_video env a p))"
  obtains d where "download_video env a p = transcribe env [Download (str ''applications'') p] a d"
  using assms
  by (auto simp: download_video_def Let_def split: outcome.splits option.splits)

section \<open>The claims about the handler\<close>

text \<open>
  C1. In a run where the download is sent and returns data and no error, the
  transcription request is sent and its response is ok with a JSON body, the chat
  completion is sent and returns a choice, and the database answers the update with no
  error, the handler sends exactly one update: to the record of table \<open>applications\<close> whose
  \<open>id\<close> is the \<open>applicationId\<close> of the request body, setting \<open>video_transcript\<close> to the
  \<open>text\<close> of the transcription, \<open>video_analysis\<close> to the content of the first choice
  and \<open>status\<close> to \<open>video_analyzed\<close>; and it returns a response with status 200 whose
  JSON body holds that transcript and that analysis, and nothing else.
\<close>

theorem analysis_success:
  assumes "list_ex is_download (fst (handler req env))"
    and "download_result env = Returns (Some videoData, None)"
    and "list_ex is_transcribe (fst (handler req env))"
    and "fetch_result env = Returns resp" and "ok resp" and "json_body resp = Returns tb"
    and "list_ex is_complete (fst (handler req env))"
    and "completion_result env = Returns (c # rest)"
    and "update_result env = Returns None"
    and "json req = Returns b"
  shows "filter is_update (fst (handler req env)) =
           [Update (str ''applications'')
              [(str ''video_transcript'', get_prop (str ''text'') tb),
               (str ''video_analysis'', from_nullable (content c)),
               (str ''status'', JStr (str ''video_analyzed''))]
              (str ''id'') (get_prop (str ''applicationId'') b)]
         \<and> snd (handler req env) =
           \<lparr>status = 200, headers = json_headers,
            body = Some (JObj [(str ''transcript'', get_prop (str ''text'') tb),
                               (str ''analysis'', from_nullable (content c))])\<rparr>"
proof -
  let ?a = "get_prop (str ''applicationId'') b"
  let ?p = "get_prop (str ''videoPath'') b"
  let ?t = "get_prop (str ''text'') tb"
  have m: "http_method req \<noteq> str ''OPTIONS''"
    using assms(1) by (rule handler_sent_not_preflight)
  have calls: "fst (handler req env) = fst (try_block req env)"
    using m by (rule handler_calls)
  have dl: "list_ex is_download (fst (try_block req env))"
    using assms(1) calls by simp
  have tb: "try_block req env = download_video env ?a ?p"
    using dl assms(10) by (auto elim!: try_block_sent)
  have cc: "create_client env = Returns ()"
    using dl tb download_video_sent by metis
  have dv: "download_video env ?a ?p = transcribe env [Download (str ''applications'') ?p] ?a videoData"
    using cc assms(2) by (rule download_video_ok)
  have "list_ex is_complete (fst (transcribe env [Download (str ''applications'') ?p] ?a videoData))"
    using assms(7) calls tb dv by simp
  then have tr: "transcribe env [Download (str ''applications'') ?p] ?a videoData =
    analyze_transcript env
      ([Download (str ''applications'') ?p] @
       [Transcribe (str ''https://api.openai.com/v1/audio/transcriptions'')
               [(str ''file'', FileField videoData (str ''video/webm'') (str ''video.webm'')),
                (str ''model'', TextField (str ''whisper-1''))]])
      ?a ?t"
    using assms(4,6) by (intro transcribe_complete_sent) simp_all
  have "list_ex is_complete (fst (analyze_transcript env
      ([Download (str ''applications'') ?p] @
       [Transcribe (str ''https://api.openai.com/v1/audio/transcriptions'')
               [(str ''file'', FileField videoData (str ''video/webm'') (str ''video.webm'')),
                (str ''model'', TextField (str ''whisper-1''))]])
      ?a ?t))"
    using assms(7) calls tb dv tr by simp
  then have no: "new_openai env = Returns ()"
    by (rule analyze_transcript_sent) simp
  have whole: "try_block req env =
    ([Download (str ''applications'') ?p,
      Transcribe (str ''https://api.openai.com/v1/audio/transcriptions'')
               [(str ''file'', FileField videoData (str ''video/webm'') (str ''video.webm'')),
                (str ''model'', TextField (str ''whisper-1''))],
      Complete (str ''gpt-4o-mini'') [(str ''system'', JStr system_prompt), (str ''user'', ?t)],
      Update (str ''applications'')
              [(str ''video_transcript'', ?t),
               (str ''video_analysis'', from_nullable (content c)),
               (str ''status'', JStr (str ''video_analyzed''))]
              (str ''id'') ?a],
     Inr \<lparr>status = 200, headers = json_headers,
            body = Some (JObj [(str ''transcript'', ?t),
                               (str ''analysis'', from_nullable (content c))])\<rparr>)"
    by (simp add: tb dv tr analyze_transcript_ok [OF no assms(8)]
        update_application_ok [OF assms(9)])
  show ?thesis
    using calls handler_returned [OF m, of env] whole by simp
qed

theorem analysis_success_witness:
  "filter is_update (fst (handler example_request example_services)) =
     [Update (str ''applications'')
        [(str ''video_transcript'', JStr (str ''Hello'')),
         (str ''video_analysis'', JStr (str ''{}'')),
         (str ''status'', JStr (str ''video_analyzed''))]
        (str ''id'') (JStr (str ''app-1''))]
   \<and> snd (handler example_request example_services) =
     \<lparr>status = 200, headers = json_headers,
      body = Some (JObj [(str ''transcript'', JStr (str ''Hello'')),
                         (str ''analysis'', JStr (str ''{}''))])\<rparr>"
proof -
  have sent: "list_ex is_download (fst (handler example_request example_services))"
    "list_ex is_transcribe (fst (handler example_request example_services))"
    "list_ex is_complete (fst (handler example_request example_services))"
    by (simp_all add: example_run)
  have answers: "download_result example_services = Returns (Some [0x1A, 0x45, 0xDF, 0xA3], None)"
    "fetch_result example_services = Returns example_response"
    "ok example_response"
    "json_body example_response = Returns (JObj [(str ''text'', JStr (str ''Hello''))])"
    "completion_result example_services = Returns (\<lparr>content = Some (str ''{}'')\<rparr> # [])"
    "update_result example_services = Returns None"
    "json example_request =
       Returns (JObj [(str ''applicationId'', JStr (str ''app-1'')),
                      (str ''videoPath'', JStr (str ''videos/intro.webm''))])"
    by (simp_all add: example_services_def example_request_def example_response_def)
  show ?thesis
    using analysis_success [OF sent(1) answers(1) sent(2) answers(2,3,4) sent(3) answers(5,6,7)]
    by (simp add: example_literals)
qed

text \<open>
  C4. In a run where the storage download is sent and returns an error or no data, the
  handler returns a response with status 500, the cross-origin headers, content type
  \<open>application/json\<close> and the JSON body \<open>{ error }\<close> holding the message of the failing
  check, and sends nothing to the transcription endpoint: the download is the only
  call of the run.
\<close>

theorem download_failure:
  assumes "list_ex is_download (fst (handler req env))"
    and "download_result env = Returns (videoData, downloadError)"
    and "downloadError \<noteq> None \<or> videoData = None"
  shows "snd (handler req env) =
           \<lparr>status = 500,
            headers = [(str ''Access-Control-Allow-Origin'', str ''*''),
                       (str ''Access-Control-Allow-Headers'',
                        str ''authorization, x-client-info, apikey, content-type''),
                       (str ''Content-Type'', str ''application/json'')],
            body = Some (JObj [(str ''error'', JStr (case downloadError of
                 Some m \<Rightarrow> str ''Failed to download video: '' @ m
               | None \<Rightarrow> str ''No video data received from storage''))])\<rparr>
         \<and> \<not> list_ex is_transcribe (fst (handler req env))
         \<and> length (fst (handler req env)) = 1"
proof -
  have m: "http_method req \<noteq> str ''OPTIONS''"
    using assms(1) by (rule handler_sent_not_preflight)
  have calls: "fst (handler req env) = fst (try_block req env)"
    using m by (rule handler_calls)
  from assms(1) calls have "list_ex is_download (fst (try_block req env))" by simp
  then obtain b where tb: "try_block req env =
      download_video env (get_prop (str ''applicationId'') b) (get_prop (str ''videoPath'') b)"
    by (rule try_block_sent)
  with \<open>list_ex is_download (fst (try_block req env))\<close>
  have cc: "create_client env = Returns ()"
    using download_video_sent by metis
  note dv = download_video_failed [OF cc assms(2,3)]
  show ?thesis
    using handler_caught [OF m, of env] calls
    by (simp add: tb dv error_response_def json_headers_def corsHeaders_def)
qed

theorem download_failure_witness:
  "snd (handler example_request no_video_services) =
           \<lparr>status = 500,
            headers = [(str ''Access-Control-Allow-Origin'', str ''*''),
                       (str ''Access-Control-Allow-Headers'',
                        str ''authorization, x-client-info, apikey, content-type''),
                       (str ''Content-Type'', str ''application/json'')],
            body = Some (JObj [(str ''error'', JStr (str ''No video data received from storage''))])\<rparr>
   \<and> \<not> list_ex is_transcribe (fst (handler example_request no_video_services))
   \<and> length (fst (handler example_request no_video_services)) = 1"
proof -
  have run: "fst (handler example_request no_video_services) =
      [Download (str ''applications'') (JStr (str ''videos/intro.webm''))]"
    by (simp add: handler_def try_block_def download_video_def example_request_def
        no_video_services_def example_services_def Let_def str_def)
  have sent: "list_ex is_download (fst (handler example_request no_video_services))"
    by (simp add: run)
  have answer: "download_result no_video_services = Returns (None, None)"
    by (simp add: no_video_services_def)
  show ?thesis
    using download_failure [OF sent answer] by simp
qed

text \<open>
  C5. In a run where the transcription request is sent and its response is ok, but the
  JSON body has no \<open>text\<close> (absent, empty or otherwise falsy), the handler returns a
  response with status 500, content type \<open>application/json\<close> and the JSON body
  \<open>{ error }\<close>, and sends nothing to the chat-completion endpoint: the run has two
  calls, the download and the transcription request.
\<close>

theorem missing_transcript:
  assumes "list_ex is_transcribe (fst (handler req env))"
    and "fetch_result env = Returns resp" and "ok resp" and "json_body resp = Returns tb"
    and "\<not> truthy (get_prop (str ''text'') tb)"
  shows "snd (handler req env) =
           \<lparr>status = 500,
            headers = [(str ''Access-Control-Allow-Origin'', str ''*''),
                       (str ''Access-Control-Allow-Headers'',
                        str ''authorization, x-client-info, apikey, content-type''),
                       (str ''Content-Type'', str ''application/json'')],
            body = Some (JObj [(str ''error'', JStr (if nullish tb then type_error env
               else str ''No transcript received from OpenAI''))])\<rparr>
         \<and> \<not> list_ex is_complete (fst (handler req env))
         \<and> length (fst (handler req env)) = 2"
proof -
  have m: "http_method req \<noteq> str ''OPTIONS''"
    using assms(1) by (rule handler_sent_not_preflight)
  have calls: "fst (handler req env) = fst (try_block req env)"
    using m by (rule handler_calls)
  from assms(1) calls have sent: "list_ex is_transcribe (fst (try_block req env))" by simp
  then obtain b where tb: "try_block req env =
      download_video env (get_prop (str ''applicationId'') b) (get_prop (str ''videoPath'') b)"
    by (rule try_block_sent)
  from sent tb obtain d where dv:
    "download_video env (get_prop (str ''applicationId'') b) (get_prop (str ''videoPath'') b) =
     transcribe env [Download (str ''applications'') (get_prop (str ''videoPath'') b)]
       (get_prop (str ''applicationId'') b) d"
    by (auto elim: download_video_transcribe_sent)
  note tr = transcribe_no_text [OF assms(2-5)]
  show ?thesis
    using handler_caught [OF m, of env] calls
    by (simp add: tb dv tr error_response_def json_headers_def corsHeaders_def)
qed

theorem missing_transcript_witness:
  "snd (handler example_request no_text_services) =
           \<lparr>status = 500,
            headers = [(str ''Access-Control-Allow-Origin'', str ''*''),
                       (str ''Access-Control-Allow-Headers'',
                        str ''authorization, x-client-info, apikey, content-type''),
                       (str ''Content-Type'', str ''application/json'')],
            body = Some (JObj [(str ''error'', JStr (str ''No transcript received from OpenAI''))])\<rparr>
   \<and> \<not> list_ex is_complete (fst (handler example_request no_text_services))
   \<and> length (fst (handler example_request no_text_services)) = 2"
proof -
  have run: "fst (handler example_request no_text_services) =
      [Download (str ''applications'') (JStr (str ''videos/intro.webm'')),
       Transcribe (str ''https://api.openai.com/v1/audio/transcriptions'')
         [(str ''file'', FileField [0x1A, 0x45, 0xDF, 0xA3] (str ''video/webm'') (str ''video.webm'')),
          (str ''model'', TextField (str ''whisper-1''))]]"
    by (simp add: handler_def try_block_def download_video_def transcribe_def
        example_request_def no_text_services_def example_services_def example_response_def
        Let_def str_def)
  have sent: "list_ex is_transcribe (fst (handler example_request no_text_services))"
    by (simp add: run)
  have answer: "fetch_result no_text_services =
      Returns (example_response\<lparr>json_body := Returns (JObj [])\<rparr>)"
    "ok (example_response\<lparr>json_body := Returns (JObj [])\<rparr>)"
    "json_body (example_response\<lparr>json_body := Returns (JObj [])\<rparr>) = Returns (JObj [])"
    "\<not> truthy (get_prop (str ''text'') (JObj []))"
    by (simp_all add: no_text_services_def example_response_def)
  show ?thesis
    using missing_transcript [OF sent answer] by simp
qed

text \<open>
  C7. Every response of the handler (pre-flight, success or error) carries the headers
  \<open>Access-Control-Allow-Origin\<close> and \<open>Access-Control-Allow-Headers\<close> of \<open>corsHeaders\<close>, and
  a request with method \<open>OPTIONS\<close> receives a response with no body and exactly those
  headers, whatever else the request holds and whatever the services would answer.
\<close>

theorem cors_headers_on_every_response:
  "map_of (headers (snd (handler req env))) (str ''Access-Control-Allow-Origin'') = Some (str ''*'')
   \<and> map_of (headers (snd (handler req env))) (str ''Access-Control-Allow-Headers'') =
       Some (str ''authorization, x-client-info, apikey, content-type'')
   \<and> (http_method req = str ''OPTIONS'' \<longrightarrow>
        body (snd (handler req env)) = None \<and> headers (snd (handler req env)) = corsHeaders)"
  using handler_headers [of req env]
  by (auto simp: json_headers_cors handler_preflight)

theorem cors_headers_on_every_response_witness:
  "map_of (headers (snd (handler preflight_request example_services)))
     (str ''Access-Control-Allow-Origin'') = Some (str ''*'')
   \<and> map_of (headers (snd (handler preflight_request example_services)))
     (str ''Access-Control-Allow-Headers'') =
       Some (str ''authorization, x-client-info, apikey, content-type'')
   \<and> http_method preflight_request = str ''OPTIONS''
   \<and> body (snd (handler preflight_request example_services)) = None
   \<and> headers (snd (handler preflight_request example_services)) = corsHeaders"
proof -
  have h: "http_method preflight_request = str ''OPTIONS''"
    by (simp add: preflight_request_def)
  show ?thesis
    using cors_headers_on_every_response [of preflight_request example_services] h by blast
qed

text \<open>
  C9, as stated, fails for a pre-flight request: with method \<open>OPTIONS\<close> and a JSON body
  without \<open>applicationId\<close>, the response is not a 500 error response, it is the
  pre-flight response with no body.
\<close>

theorem preflight_ignores_missing_parameters:
  "json preflight_request = Returns (JObj [])
   \<and> \<not> truthy (get_prop (str ''applicationId'') (JObj []))
   \<and> status (snd (handler preflight_request example_services)) \<noteq> 500
   \<and> body (snd (handler preflight_request example_services)) = None"
  by (simp add: preflight_request_def handler_def)

text \<open>
  C9, amended. For every request that is not a pre-flight request (its method is not
  \<open>OPTIONS\<close>) and whose JSON body lacks \<open>applicationId\<close> or \<open>videoPath\<close>, or has an empty
  string or another falsy value there, the handler returns a response with status 500,
  content type \<open>application/json\<close> and the JSON body \<open>{ error }\<close>, without sending
  anything to storage, the transcription endpoint, the completion endpoint or the
  database. The response is the same for an empty string as for an absent field.
\<close>

theorem missing_parameters:
  assumes "http_method req \<noteq> str ''OPTIONS''"
    and "json req = Returns b"
    and "\<not> truthy (get_prop (str ''applicationId'') b) \<or> \<not> truthy (get_prop (str ''videoPath'') b)"
  shows "handler req env =
          ([],
           \<lparr>status = 500,
            headers = [(str ''Access-Control-Allow-Origin'', str ''*''),
                       (str ''Access-Control-Allow-Headers'',
                        str ''authorization, x-client-info, apikey, content-type''),
                       (str ''Content-Type'', str ''application/json'')],
            body = Some (JObj [(str ''error'', JStr (if nullish b then type_error env
               else str ''Missing required parameters: applicationId or videoPath''))])\<rparr>)"
  using assms(1) try_block_rejected [OF assms(2,3), of env]
  by (simp add: handler_def error_response_def json_headers_def corsHeaders_def)

theorem missing_parameters_witness:
  "handler empty_id_request example_services =
          ([],
           \<lparr>status = 500,
            headers = [(str ''Access-Control-Allow-Origin'', str ''*''),
                       (str ''Access-Control-Allow-Headers'',
                        str ''authorization, x-client-info, apikey, content-type''),
                       (str ''Content-Type'', str ''application/json'')],
            body = Some (JObj [(str ''error'', JStr (str ''Missing required parameters: applicationId or videoPath''))])\<rparr>)"
proof -
  have 1: "http_method empty_id_request \<noteq> str ''OPTIONS''"
    by (simp add: empty_id_request_def str_def)
  have 2: "json empty_id_request =
    Returns (JObj [(str ''applicationId'', JStr []),
                   (str ''videoPath'', JStr (str ''videos/intro.webm''))])"
    by (simp add: empty_id_request_def)
  have 3: "\<not> truthy (get_prop (str ''applicationId'')
             (JObj [(str ''applicationId'', JStr []),
                    (str ''videoPath'', JStr (str ''videos/intro.webm''))]))
           \<or> \<not> truthy (get_prop (str ''videoPath'')
             (JObj [(str ''applicationId'', JStr []),
                    (str ''videoPath'', JStr (str ''videos/intro.webm''))]))"
    by simp
  show ?thesis
    using missing_parameters [OF 1 2 3, of example_services] by simp
qed

section \<open>The widget, part by part\<close>

lemma process_document_shape:
  "\<exists>mid. fst (process_document env es fp) =
       es @ Invoke (str ''process-job-document'') (JObj [(str ''filePath'', JStr fp)]) # mid
     \<and> \<not> list_ex is_setUploading mid \<and> \<not> list_ex is_upload mid \<and> \<not> list_ex is_invoke mid"
  by (auto simp: process_document_def Let_def split: outcome.splits option.splits prod.splits)

lemma try_body_shape:
  obtains mid where
    "fst (try_body file env) =
       SetUploading True # Upload (str ''job-documents'') (file_path (now env) file) file # mid"
    "\<not> list_ex is_setUploading mid" "\<not> list_ex is_upload mid"
    "filter is_invoke mid =
       (if upload_result env = Returns None
        then [Invoke (str ''process-job-document'')
                (JObj [(str ''filePath'', JStr (file_path (now env) file))])]
        else [])"
proof (cases "upload_result env = Returns None")
  case True
  obtain mid where mid: "fst (process_document env
        [SetUploading True, Upload (str ''job-documents'') (file_path (now env) file) file]
        (file_path (now env) file)) =
       [SetUploading True, Upload (str ''job-documents'') (file_path (now env) file) file] @
       Invoke (str ''process-job-document'')
         (JObj [(str ''filePath'', JStr (file_path (now env) file))]) # mid"
    "\<not> list_ex is_setUploading mid" "\<not> list_ex is_upload mid" "\<not> list_ex is_invoke mid"
    using process_document_shape by blast
  show ?thesis
  proof (rule that)
    show "fst (try_body file env) =
       SetUploading True # Upload (str ''job-documents'') (file_path (now env) file) file #
       (Invoke (str ''process-job-document'')
         (JObj [(str ''filePath'', JStr (file_path (now env) file))]) # mid)"
      using True mid(1) by (simp add: try_body_def Let_def)
  qed (use True mid in \<open>simp_all add: filter_empty_conv list_ex_iff\<close>)
next
  case False
  show ?thesis
  proof (rule that [of "[]"])
    show "fst (try_body file env) =
       SetUploading True # Upload (str ''job-documents'') (file_path (now env) file) file # []"
      using False
      by (cases "upload_result env") (auto simp: try_body_def Let_def split: option.splits)
  qed (use False in simp_all)
qed

lemma handleFileChange_events:
  assumes "first_file files = Some file"
  obtains tail where
    "events (handleFileChange files env) = fst (try_body file env) @ tail @ [SetUploading False]"
    "\<not> list_ex is_setUploading tail" "\<not> list_ex is_upload tail" "\<not> list_ex is_invoke tail"
proof (cases "try_body file env")
  case (Pair es r)
  show ?thesis
  proof (cases r)
    case (Inr u)
    show ?thesis
      by (rule that [of "[]"]) (simp_all add: handleFileChange_def assms Pair Inr)
  next
    case (Inl error)
    show ?thesis
    proof (cases "message_of (engine_type_error env) error")
      case (Throws e)
      show ?thesis
        by (rule that [of "[]"]) (simp_all add: handleFileChange_def assms Pair Inl Throws)
    next
      case (Returns m)
      show ?thesis
        by (rule that [of "[Toast (error_toast m)]"])
           (simp_all add: handleFileChange_def assms Pair Inl Returns)
    qed
  qed
qed

lemma handleFileChange_shape:
  assumes "first_file files = Some file"
  obtains mid where
    "events (handleFileChange files env) =
       SetUploading True # Upload (str ''job-documents'') (file_path (now env) file) file #
       mid @ [SetUploading False]"
    "\<not> list_ex is_setUploading mid" "\<not> list_ex is_upload mid"
    "filter is_invoke mid =
       (if upload_result env = Returns None
        then [Invoke (str ''process-job-document'')
                (JObj [(str ''filePath'', JStr (file_path (now env) file))])]
        else [])"
proof -
  obtain mid where mid: "fst (try_body file env) =
       SetUploading True # Upload (str ''job-documents'') (file_path (now env) file) file # mid"
    "\<not> list_ex is_setUploading mid" "\<not> list_ex is_upload mid"
    "filter is_invoke mid =
       (if upload_result env = Returns None
        then [Invoke (str ''process-job-document'')
                (JObj [(str ''filePath'', JStr (file_path (now env) file))])]
        else [])"
    by (rule try_body_shape)
  obtain tail where tail:
    "events (handleFileChange files env) = fst (try_body file env) @ tail @ [SetUploading False]"
    "\<not> list_ex is_setUploading tail" "\<not> list_ex is_upload tail" "\<not> list_ex is_invoke tail"
    using assms by (rule handleFileChange_events)
  have none: "filter is_invoke tail = []"
    using tail(4) by (simp add: filter_empty_conv list_ex_iff)
  show ?thesis
  proof (rule that [of "mid @ tail"])
    show "filter is_invoke (mid @ tail) =
       (if upload_result env = Returns None
        then [Invoke (str ''process-job-document'')
                (JObj [(str ''filePath'', JStr (file_path (now env) file))])]
        else [])"
      using mid(4) none by simp
  qed (use mid tail in simp_all)
qed

lemma set_uploading_other: "\<not> is_setUploading e \<Longrightarrow> set_uploading e u = u"
  by (cases e) simp_all

lemma uploading_values_quiet:
  "\<not> list_ex is_setUploading mid \<Longrightarrow>
   uploading_values u (mid @ es) = replicate (length mid) u @ uploading_values u es"
  by (induction mid) (simp_all add: set_uploading_other)

lemma transitions_replicate:
  "transitions (a # replicate n a @ bs) = transitions (a # bs)"
  by (induction n) simp_all

lemma filter_none: "\<not> list_ex P xs \<Longrightarrow> filter P xs = []"
  by (simp add: filter_empty_conv list_ex_iff)

lemma filter_remote_invoke:
  "\<not> list_ex is_upload xs \<Longrightarrow> filter is_remote xs = filter is_invoke xs"
  by (induction xs) auto

lemma replace_non_ascii_filter: "replace_non_ascii s = filter (\<lambda>u. u \<le> 0x7F) s"
  by (induction s) (simp_all add: non_ascii_def)

lemma ascii_not_surrogate: "u \<le> 0x7F \<Longrightarrow> \<not> is_high_surrogate (u :: 16 word)"
  by (simp add: is_high_surrogate_def word_le_nat_alt)

lemma code_points_ascii: "\<forall>u \<in> set s. u \<le> 0x7F \<Longrightarrow> code_points s = map unat s"
  by (induction s rule: code_points.induct) (simp_all add: ascii_not_surrogate)

lemma code_points_filter:
  "filter (\<lambda>c. c \<le> 0x7F) (code_points s) = map unat (filter (\<lambda>u. u \<le> 0x7F) s)"
  by (induction s rule: code_points.induct)
     (auto simp: is_high_surrogate_def is_low_surrogate_def word_le_nat_alt)

lemma digit_unit:
  assumes "n < 10"
  shows "is_digit (48 + of_nat n)" and "unat (48 + of_nat n :: 16 word) = 48 + n"
proof -
  have "(48 + of_nat n :: 16 word) = of_nat (48 + n)" by simp
  then have "unat (48 + of_nat n :: 16 word) = (48 + n) mod 2 ^ LENGTH(16)"
    by (simp only: unat_of_nat)
  then show u: "unat (48 + of_nat n :: 16 word) = 48 + n"
    using assms by simp
  show "is_digit (48 + of_nat n)"
    using assms unfolding is_digit_def word_le_nat_alt u by simp
qed

lemma decimal_value_append:
  "decimal_value a (xs @ ys) =
     (case decimal_value a xs of None \<Rightarrow> None | Some v \<Rightarrow> decimal_value v ys)"
  by (induction xs arbitrary: a) simp_all

lemma digits_not_empty: "digits n \<noteq> []"
  by (subst digits.simps) simp

lemma decimal_value_digits: "decimal_value 0 (digits n) = Some n"
proof (induction n rule: digits.induct)
  case (1 n)
  show ?case
  proof (cases "n < 10")
    case True
    then show ?thesis
      by (subst digits.simps) (simp add: digit_unit)
  next
    case False
    have "n mod 10 < 10" by simp
    note d = digit_unit [OF this]
    have "decimal_value 0 (digits n) =
        decimal_value 0 (digits (n div 10) @ [of_nat (48 + n mod 10)])"
      using False by (subst digits.simps) simp
    also have "\<dots> = Some (10 * (n div 10) + n mod 10)"
      using 1 [OF False] d by (simp add: decimal_value_append)
    finally show ?thesis by simp
  qed
qed

lemma hd_digits: "is_digit (hd (digits n)) \<and> (0 < n \<longrightarrow> hd (digits n) \<noteq> 0x30)"
proof (induction n rule: digits.induct)
  case (1 n)
  show ?case
  proof (cases "n < 10")
    case True
    have "0 < n \<Longrightarrow> unat (48 + of_nat n :: 16 word) \<noteq> unat (0x30 :: 16 word)"
      using True by (simp add: digit_unit)
    then have "0 < n \<Longrightarrow> (48 + of_nat n :: 16 word) \<noteq> 0x30" by metis
    then show ?thesis
      using True by (subst (1 2) digits.simps) (simp add: digit_unit)
  next
    case False
    then have "hd (digits n) = hd (digits (n div 10))"
      by (subst digits.simps) (simp add: digits_not_empty)
    moreover have "0 < n div 10" using False by simp
    ultimately show ?thesis using 1 [OF False] by simp
  qed
qed

lemma decimal_nat_digits: "decimal_nat (digits n) = Some n"
proof (cases "digits n")
  case Nil
  then show ?thesis by (simp add: digits_not_empty)
next
  case (Cons u us)
  have "\<not> (u = 0x30 \<and> us \<noteq> [])"
  proof (cases "n = 0")
    case True
    then have "digits n = [0x30]" by (subst digits.simps) simp
    then show ?thesis using Cons by simp
  next
    case False
    then show ?thesis using hd_digits [of n] Cons by simp
  qed
  then show ?thesis
    using decimal_value_digits [of n] Cons by (simp add: decimal_nat_def)
qed

lemma decimal_int_number_to_string: "decimal_int (number_to_string n) = Some n"
proof (cases "n < 0")
  case True
  then have "number_to_string n = 0x2D # digits (nat (- n))"
    by (simp add: number_to_string_def str_def)
  then show ?thesis
    using True by (simp add: decimal_int_def decimal_nat_digits)
next
  case False
  obtain u us where c: "digits (nat n) = u # us"
    using digits_not_empty [of "nat n"] by (cases "digits (nat n)") auto
  have "is_digit u" using hd_digits [of "nat n"] c by simp
  then have "u \<noteq> 0x2D" by (auto simp: is_digit_def)
  then show ?thesis
    using False c decimal_nat_digits [of "nat n"]
    by (simp add: number_to_string_def decimal_int_def)
qed

lemma digit_of_value:
  assumes "is_digit d"
  shows "unat d - 48 < 10" and "(48 + of_nat (unat d - 48) :: 16 word) = d"
proof -
  have r: "48 \<le> unat d" "unat d \<le> 57"
    using assms by (simp_all add: is_digit_def word_le_nat_alt)
  then show "unat d - 48 < 10" by simp
  have "(48 + of_nat (unat d - 48) :: 16 word) = of_nat (48 + (unat d - 48))" by simp
  also have "\<dots> = of_nat (unat d)" using r by simp
  finally show "(48 + of_nat (unat d - 48) :: 16 word) = d" by simp
qed

lemma decimal_value_unique:
  assumes "s \<noteq> []" and "hd s = 0x30 \<longrightarrow> tl s = []" and "decimal_value 0 s = Some n"
  shows "s = digits n"
  using assms
proof (induction s arbitrary: n rule: rev_induct)
  case Nil
  then show ?case by simp
next
  case (snoc d xs)
  from snoc.prems(3) obtain v where v: "decimal_value 0 xs = Some v"
    and d: "is_digit d" and n: "n = 10 * v + (unat d - 48)"
    by (auto simp: decimal_value_append split: option.splits if_splits)
  note k = digit_of_value [OF d]
  show ?case
  proof (cases "xs = []")
    case True
    then have "n = unat d - 48" using v n by simp
    then show ?thesis
      using True k by (subst digits.simps) simp
  next
    case False
    then have canon: "hd xs = 0x30 \<longrightarrow> tl xs = []"
      using snoc.prems(2) by simp
    have xs: "xs = digits v"
      using False canon v by (rule snoc.IH)
    have "v \<noteq> 0"
    proof
      assume "v = 0"
      then have "xs = [0x30]" using xs by (subst (asm) digits.simps) simp
      then show False using snoc.prems(2) by simp
    qed
    then have "\<not> n < 10" "n div 10 = v" "n mod 10 = unat d - 48"
      using n k(1) by simp_all
    then show ?thesis
      using xs k(2) by (subst digits.simps) simp
  qed
qed

lemma decimal_nat_unique: "decimal_nat s = Some n \<Longrightarrow> s = digits n"
  by (cases s) (auto simp: decimal_nat_def split: if_splits intro!: decimal_value_unique)

lemma decimal_int_unique:
  assumes "decimal_int s = Some n"
  shows "s = number_to_string n"
proof (cases s)
  case Nil
  then show ?thesis using assms by (simp add: decimal_int_def)
next
  case (Cons u us)
  show ?thesis
  proof (cases "u = 0x2D")
    case True
    then obtain m where m: "decimal_nat us = Some m" "m \<noteq> 0" "n = - int m"
      using assms Cons by (auto simp: decimal_int_def split: option.splits if_splits)
    then have "us = digits m" by (simp add: decimal_nat_unique)
    then show ?thesis
      using m True Cons by (simp add: number_to_string_def str_def)
  next
    case False
    then obtain m where m: "decimal_nat s = Some m" "n = int m"
      using assms Cons by (auto simp: decimal_int_def split: option.splits)
    then have "s = digits m" by (simp add: decimal_nat_unique)
    then show ?thesis
      using m by (simp add: number_to_string_def)
  qed
qed

lemma example_events:
  "events (handleFileChange (Some [example_file]) example_browser) =
    [SetUploading True,
     Upload (str ''job-documents'') (str ''job-documents/1700000000123_CV.pdf'') example_file,
     Invoke (str ''process-job-document'')
       (JObj [(str ''filePath'', JStr (str ''job-documents/1700000000123_CV.pdf''))]),
     OnProcessed (JObj [(str ''title'', JStr (str ''Engineer'')),
                        (str ''description'', JStr (str ''Builds things'')),
                        (str ''good_candidate_attributes'', JUndefined),
                        (str ''bad_candidate_attributes'', JUndefined),
                        (str ''essential_attributes'', JArr [])]),
     Toast success_toast,
     SetUploading False]"
  by (simp add: handleFileChange_def first_file_def try_body_def process_document_def
      processed_def optional_prop_def file_path_def number_to_string_def non_ascii_def
      example_browser_def example_file_def Let_def str_def digits.simps)

section \<open>The claims about the widget\<close>

text \<open>
  C2. When a file is selected, the upload reports no error and the invocation returns
  data and no error, but the data has no description (\<open>data?.description\<close> is
  absent, empty or otherwise falsy), the run is a failure: \<open>onProcessed\<close> is not called
  and a toast is shown with title \<open>Error\<close>, description
  \<open>No content extracted from document\<close> and variant \<open>destructive\<close>. The events of
  the run are exactly the five listed.
\<close>

theorem missing_description:
  assumes "first_file files = Some file"
    and "upload_result env = Returns None"
    and "invoke_result env = Returns (data, None)"
    and "\<not> truthy (optional_prop (str ''description'') data)"
  shows "events (handleFileChange files env) =
           [SetUploading True,
            Upload (str ''job-documents'') (file_path (now env) file) file,
            Invoke (str ''process-job-document'')
              (JObj [(str ''filePath'', JStr (file_path (now env) file))]),
            Toast [(str ''title'', JStr (str ''Error'')),
                   (str ''description'', JStr (str ''No content extracted from document'')),
                   (str ''variant'', JStr (str ''destructive''))],
            SetUploading False]
         \<and> \<not> list_ex is_onProcessed (events (handleFileChange files env))"
  using assms
  by (simp add: handleFileChange_def try_body_def process_document_def error_toast_def Let_def)

theorem missing_description_witness:
  "events (handleFileChange (Some [example_file]) no_description_browser) =
     [SetUploading True,
      Upload (str ''job-documents'') (file_path 1700000000123 example_file) example_file,
      Invoke (str ''process-job-document'')
        (JObj [(str ''filePath'', JStr (file_path 1700000000123 example_file))]),
      Toast [(str ''title'', JStr (str ''Error'')),
                   (str ''description'', JStr (str ''No content extracted from document'')),
                   (str ''variant'', JStr (str ''destructive''))],
      SetUploading False]
   \<and> \<not> list_ex is_onProcessed (events (handleFileChange (Some [example_file]) no_description_browser))"
proof -
  have 1: "first_file (Some [example_file]) = Some example_file"
    by (simp add: first_file_def)
  have 2: "upload_result no_description_browser = Returns None"
    by (simp add: no_description_browser_def example_browser_def)
  have 3: "invoke_result no_description_browser =
      Returns (JObj [(str ''title'', JStr (str ''Engineer''))], None)"
    by (simp add: no_description_browser_def)
  have 4: "\<not> truthy (optional_prop (str ''description'')
      (JObj [(str ''title'', JStr (str ''Engineer''))]))"
    by (simp add: optional_prop_def str_def)
  have 5: "now no_description_browser = 1700000000123"
    by (simp add: no_description_browser_def example_browser_def)
  show ?thesis
    using missing_description [OF 1 2 3 4] by (simp add: 5)
qed

text \<open>
  C3. In every invocation with a selected file, whatever the upload, the invocation and
  the callback do, \<open>setUploading\<close> is called exactly twice: with \<open>true\<close> as the first
  event and with \<open>false\<close> as the last. Starting from \<open>false\<close> (the initial state of the
  component, and its state after every completed invocation) the flag changes from
  false to true once and from true to false once; and whatever its value before, it is
  false afterwards.
\<close>

theorem busy_flag:
  assumes "first_file files = Some file"
  shows "filter is_setUploading (events (handleFileChange files env)) =
           [SetUploading True, SetUploading False]
         \<and> hd (events (handleFileChange files env)) = SetUploading True
         \<and> last (events (handleFileChange files env)) = SetUploading False
         \<and> transitions (uploading_values False (events (handleFileChange files env))) =
           [(False, True), (True, False)]
         \<and> uploading_after u (events (handleFileChange files env)) = False"
proof -
  obtain mid where es: "events (handleFileChange files env) =
       SetUploading True # Upload (str ''job-documents'') (file_path (now env) file) file #
       mid @ [SetUploading False]"
    and quiet: "\<not> list_ex is_setUploading mid"
    using assms by (rule handleFileChange_shape)
  have "uploading_values False (events (handleFileChange files env)) =
      False # True # replicate (length mid) True @ [True, False]"
    by (simp add: es uploading_values_quiet [OF quiet])
  then have "transitions (uploading_values False (events (handleFileChange files env))) =
      [(False, True), (True, False)]"
    by (simp add: transitions_replicate)
  then show ?thesis
    by (simp add: es filter_none [OF quiet] uploading_after_def)
qed

theorem busy_flag_witness:
  "filter is_setUploading (events (handleFileChange (Some [example_file]) failed_upload_browser)) =
     [SetUploading True, SetUploading False]
   \<and> hd (events (handleFileChange (Some [example_file]) failed_upload_browser)) = SetUploading True
   \<and> last (events (handleFileChange (Some [example_file]) failed_upload_browser)) = SetUploading False
   \<and> transitions (uploading_values False
        (events (handleFileChange (Some [example_file]) failed_upload_browser))) =
     [(False, True), (True, False)]
   \<and> uploading_after True (events (handleFileChange (Some [example_file]) failed_upload_browser)) = False"
proof -
  have 1: "first_file (Some [example_file]) = Some example_file"
    by (simp add: first_file_def)
  show ?thesis
    using busy_flag [OF 1, of failed_upload_browser True] by simp
qed

text \<open>
  C6. In every invocation with a selected file, the remote calls are one upload,
  followed by one invocation of the processing endpoint exactly when the upload
  returned no error, and nothing else: at most one of each, in that order, and no
  invocation when the upload throws or reports an error.
\<close>

theorem upload_then_invoke:
  assumes "first_file files = Some file"
  shows "filter is_remote (events (handleFileChange files env)) =
           (if upload_result env = Returns None
            then [Upload (str ''job-documents'') (file_path (now env) file) file,
                  Invoke (str ''process-job-document'')
                    (JObj [(str ''filePath'', JStr (file_path (now env) file))])]
            else [Upload (str ''job-documents'') (file_path (now env) file) file])
         \<and> (list_ex is_invoke (events (handleFileChange files env))
              \<longleftrightarrow> upload_result env = Returns None)"
proof -
  obtain mid where es: "events (handleFileChange files env) =
       SetUploading True # Upload (str ''job-documents'') (file_path (now env) file) file #
       mid @ [SetUploading False]"
    and no_upload: "\<not> list_ex is_upload mid"
    and invoke: "filter is_invoke mid =
       (if upload_result env = Returns None
        then [Invoke (str ''process-job-document'')
                (JObj [(str ''filePath'', JStr (file_path (now env) file))])]
        else [])"
    using assms by (rule handleFileChange_shape)
  have remote: "filter is_remote (events (handleFileChange files env)) =
      Upload (str ''job-documents'') (file_path (now env) file) file # filter is_invoke mid"
    using filter_remote_invoke [OF no_upload] by (simp add: es)
  have "list_ex is_invoke (events (handleFileChange files env)) \<longleftrightarrow> filter is_invoke mid \<noteq> []"
    by (simp add: es filter_empty_conv list_ex_iff)
  then show ?thesis
    using remote invoke by simp
qed

theorem upload_then_invoke_witness:
  "filter is_remote (events (handleFileChange (Some [example_file]) failed_upload_browser)) =
     [Upload (str ''job-documents'') (file_path 1700000000123 example_file) example_file]
   \<and> \<not> list_ex is_invoke (events (handleFileChange (Some [example_file]) failed_upload_browser))
   \<and> upload_result failed_upload_browser \<noteq> Returns None"
proof -
  have 1: "first_file (Some [example_file]) = Some example_file"
    by (simp add: first_file_def)
  have 2: "upload_result failed_upload_browser = Returns (Some (str ''Bucket not found''))"
    "now failed_upload_browser = 1700000000123"
    by (simp_all add: failed_upload_browser_def example_browser_def)
  show ?thesis
    using upload_then_invoke [OF 1, of failed_upload_browser] by (simp add: 2)
qed

text \<open>
  C8. For every selected file the key of the upload is \<open>job-documents/\<close>, the timestamp,
  an underscore, and the code units of the file name that are at most 0x7F, in their
  order. The timestamp part is the decimal numeral of the clock value \<open>now env\<close> (by
  \<open>decimal_int_unique\<close> it is the only string that denotes it). Read as code points, the
  sanitised name is the file name without its code points above 0x7F.
\<close>

theorem storage_key:
  assumes "first_file files = Some file"
  shows "filter is_upload (events (handleFileChange files env)) =
           [Upload (str ''job-documents'')
              (str ''job-documents/'' @ number_to_string (now env) @ str ''_'' @
               filter (\<lambda>u. u \<le> 0x7F) (name file))
              file]
         \<and> decimal_int (number_to_string (now env)) = Some (now env)
         \<and> code_points (replace_non_ascii (name file)) =
           filter (\<lambda>c. c \<le> 0x7F) (code_points (name file))"
proof -
  obtain mid where es: "events (handleFileChange files env) =
       SetUploading True # Upload (str ''job-documents'') (file_path (now env) file) file #
       mid @ [SetUploading False]"
    and no_upload: "\<not> list_ex is_upload mid"
    using assms by (rule handleFileChange_shape)
  have "code_points (replace_non_ascii (name file)) =
      filter (\<lambda>c. c \<le> 0x7F) (code_points (name file))"
    by (simp add: replace_non_ascii_filter code_points_filter code_points_ascii)
  then show ?thesis
    by (simp add: es filter_none [OF no_upload] file_path_def replace_non_ascii_filter
        decimal_int_number_to_string)
qed

theorem storage_key_witness:
  "filter is_upload (events (handleFileChange (Some [example_file]) example_browser)) =
     [Upload (str ''job-documents'') (str ''job-documents/1700000000123_CV.pdf'') example_file]
   \<and> decimal_int (str ''1700000000123'') = Some 1700000000123
   \<and> code_points (replace_non_ascii (name example_file)) = code_points (str ''CV.pdf'')
   \<and> code_points (name example_file) = code_points (str ''CV'') @ [0xE9, 0x1F600] @ code_points (str ''.pdf'')"
proof -
  have 1: "first_file (Some [example_file]) = Some example_file"
    by (simp add: first_file_def)
  have 2: "now example_browser = 1700000000123"
    by (simp add: example_browser_def)
  have 3: "number_to_string 1700000000123 = str ''1700000000123''"
    by (simp add: number_to_string_def str_def digits.simps)
  have 4: "code_points (name example_file) =
      code_points (str ''CV'') @ [0xE9, 0x1F600] @ code_points (str ''.pdf'')"
    by (simp add: example_file_def str_def is_high_surrogate_def is_low_surrogate_def)
  have 5: "filter (\<lambda>u. u \<le> 0x7F) (name example_file) = str ''CV.pdf''"
    by (simp add: example_file_def str_def)
  show ?thesis
    using storage_key [OF 1, of example_browser] 4
    by (simp add: 2 3 5 replace_non_ascii_filter) (simp add: str_def)
qed

text \<open>
  C10. When the file list of the event is absent or empty, the invocation has no events
  at all (no state change, upload, invocation, callback or toast) and is not rejected;
  the flag has the value it had.
\<close>

theorem no_file_selected:
  assumes "files = None \<or> files = Some []"
  shows "handleFileChange files env = \<lparr>events = [], rejected = None\<rparr>
         \<and> uploading_values u (events (handleFileChange files env)) = [u]
         \<and> uploading_after u (events (handleFileChange files env)) = u"
  using assms by (auto simp: handleFileChange_def first_file_def uploading_after_def)

theorem no_file_selected_witness:
  "handleFileChange (Some []) example_browser = \<lparr>events = [], rejected = None\<rparr>
   \<and> uploading_values False (events (handleFileChange (Some []) example_browser)) = [False]
   \<and> uploading_after False (events (handleFileChange (Some []) example_browser)) = False"
proof -
  have 1: "Some [] = None \<or> Some [] = Some ([] :: File list)" by simp
  show ?thesis
    using no_file_selected [OF 1, of example_browser False] by (simp add: uploading_after_def)
qed

end
